theory Spec2Isabelle
  imports Main "HOL-Library.Word"
begin

section \<open>JavaScript values and Node buffers\<close>

text \<open>
  The module \<^verbatim>\<open>lib/index.js\<close> defines the constructor \<^verbatim>\<open>Struct\<close>, seven prototype
  methods and the factory \<^verbatim>\<open>createStruct\<close>. Its arguments are untyped JavaScript
  values, and two tests of the source depend on the kind of value alone: \<^verbatim>\<open>!buf\<close>
  and \<^verbatim>\<open>Buffer.isBuffer(buf)\<close>. A buffer is an object on the heap: a value only
  carries its address, so that two holders of one buffer see each other's writes.
\<close>

type_synonym byte = "8 word"
type_synonym addr = nat

datatype jsval =
    JUndefined
  | JNull
  | JBool bool
  | JNum int
  | JNaN
  | JStr string
  | JBuffer addr
  | JFunction
  | JObject

text \<open>
  \<open>JNum\<close> is a number with an integer value, \<open>JFunction\<close> a function and
  \<open>JObject\<close> any other object that is not a buffer.
\<close>

text \<open>What \<^verbatim>\<open>if (v)\<close> and \<^verbatim>\<open>!v\<close> test.\<close>

fun truthy :: "jsval \<Rightarrow> bool" where
  "truthy JUndefined = False"
| "truthy JNull = False"
| "truthy (JBool b) = b"
| "truthy (JNum n) = (n \<noteq> 0)"
| "truthy JNaN = False"
| "truthy (JStr s) = (s \<noteq> [])"
| "truthy (JBuffer a) = True"
| "truthy JFunction = True"
| "truthy JObject = True"

fun typeof :: "jsval \<Rightarrow> string" where
  "typeof JUndefined = ''undefined''"
| "typeof JNull = ''object''"
| "typeof (JBool b) = ''boolean''"
| "typeof (JNum n) = ''number''"
| "typeof JNaN = ''number''"
| "typeof (JStr s) = ''string''"
| "typeof (JBuffer a) = ''object''"
| "typeof JFunction = ''function''"
| "typeof JObject = ''object''"

text \<open>\<^verbatim>\<open>Buffer.isBuffer\<close>.\<close>

fun isBuffer :: "jsval \<Rightarrow> bool" where
  "isBuffer (JBuffer a) = True"
| "isBuffer v = False"

datatype error = TypeError string | RangeError string

text \<open>
  The heap holds the bytes of every buffer. \<open>brk\<close> is the next free address.
  \<^verbatim>\<open>new Buffer(n)\<close> hands out \<open>n\<close> bytes, and the module writes nothing into
  them: the new buffer holds what the runtime puts there. That is the component
  \<open>uninit\<close> of the heap, one byte for each address and position: all zero on a
  runtime that clears new buffers, anything on one that does not (the source
  says of an unwritten field that it ``returns gibberish'' and that ``raw memory
  is exposed''). \<open>kMaxLength\<close> is the largest size that the runtime allocates;
  \<open>new_Buffer\<close> describes an allocation of at most that size (for a larger one
  the runtime throws a \<^verbatim>\<open>RangeError\<close>).
\<close>

record heap =
  cells :: "addr \<Rightarrow> byte list"
  brk :: addr
  uninit :: "addr \<Rightarrow> nat \<Rightarrow> byte"
  kMaxLength :: nat

definition new_Buffer :: "heap \<Rightarrow> nat \<Rightarrow> heap \<times> addr" where
  "new_Buffer h n =
     (h\<lparr>cells := (cells h)(brk h := map (uninit h (brk h)) [0..<n]), brk := Suc (brk h)\<rparr>,
      brk h)"

text \<open>
  \<^verbatim>\<open>source.copy(target)\<close> with the default positions: the bytes of the source
  overwrite the target from position 0, as many as fit.
\<close>

definition copy :: "byte list \<Rightarrow> byte list \<Rightarrow> byte list" where
  "copy source target = take (length target) source @ drop (length source) target"

subsection \<open>\<^verbatim>\<open>util.format\<close>\<close>

text \<open>
  The two calls of the source use the placeholder \<^verbatim>\<open>%d\<close> only, which prints
  \<^verbatim>\<open>Number(arg)\<close>: a length in decimal, and \<^verbatim>\<open>NaN\<close> for the name of a type
  (no result of \<^verbatim>\<open>typeof\<close> is a numeral). Both calls pass as many arguments as
  the template has placeholders.
\<close>

datatype fmt_arg = Num nat | TypeName string

fun decimal :: "nat \<Rightarrow> string" where
  "decimal n =
     (if n < 10 then [''0123456789'' ! n]
      else decimal (n div 10) @ [''0123456789'' ! (n mod 10)])"

declare decimal.simps [simp del]

fun format_d :: "fmt_arg \<Rightarrow> string" where
  "format_d (Num n) = decimal n"
| "format_d (TypeName s) = ''NaN''"

fun format :: "string \<Rightarrow> fmt_arg list \<Rightarrow> string" where
  "format (c # d # rest) (a # as) =
     (if c = CHR ''%'' \<and> d = CHR ''d'' then format_d a @ format rest as
      else c # format (d # rest) (a # as))"
| "format s as = s"

section \<open>The struct\<close>

text \<open>
  An instance keeps its state in \<^verbatim>\<open>this.__\<close> (\<^verbatim>\<open>buf\<close>, \<^verbatim>\<open>caching\<close>,
  \<^verbatim>\<open>cache\<close>, \<^verbatim>\<open>fields\<close>, \<^verbatim>\<open>read\<close>, \<^verbatim>\<open>write\<close>) and in \<^verbatim>\<open>this.length\<close>.
  The module assigns \<^verbatim>\<open>buf\<close>, \<^verbatim>\<open>caching\<close> and the entries of \<^verbatim>\<open>cache\<close>; it
  reads the others and defines none of them, so they are components of the
  record whose values the caller of the model chooses:
  \<^item> \<open>length'\<close> is \<^verbatim>\<open>this.length\<close>, the number of bytes of the layout;
  \<^item> \<open>fields'\<close> is the array of field names;
  \<^item> \<open>read\<close> and \<open>write'\<close> are the codec: they decode a field from the bytes of the
    bound buffer, and encode a value into them or throw;
  \<^item> the cache is an object of which the module only uses \<^verbatim>\<open>cache[field] = val\<close>,
    \<^verbatim>\<open>field in cache\<close> and \<^verbatim>\<open>cache[field]\<close>. \<open>cache\<close> holds its own
    properties, the pending values; \<open>cache_proto\<close> is its prototype (\<open>JNull\<close> when it
    has none, an object such as \<^verbatim>\<open>Object.prototype\<close> otherwise), and \<open>members\<close>
    tells what an object shows under a name other than \<^verbatim>\<open>__proto__\<close> when it
    is that prototype (for \<^verbatim>\<open>Object.prototype\<close>: \<^verbatim>\<open>toString\<close>,
    \<^verbatim>\<open>hasOwnProperty\<close> and so on).
  \<open>props\<close> lists the accessor properties that \<^verbatim>\<open>Object.defineProperty\<close> has put
  on the instance.

  An accessor on the instance hides the member of the same name. The source
  reads five members on \<^verbatim>\<open>this\<close>: \<^verbatim>\<open>__\<close>, \<^verbatim>\<open>length\<close>, \<^verbatim>\<open>get\<close>,
  \<^verbatim>\<open>set\<close> and \<^verbatim>\<open>setPointer\<close>. A record stands for an instance on which these
  reach the state and the methods described here; so the name of a field is a
  string other than these five, which the type \<open>field_name\<close> expresses. (With a
  field of such a name the accessor would answer in place of the member:
  \<^verbatim>\<open>this.get.bind\<close> in the next round of the constructor's loop would be
  taken from the field's value, \<^verbatim>\<open>this.length\<close> would be the field's value.)
\<close>

definition reserved :: "string list" where
  "reserved = [''__'', ''length'', ''get'', ''set'', ''setPointer'']"

typedef field_name = "{s :: string. s \<notin> set reserved}"
  by (rule exI [of _ "[]"]) (simp add: reserved_def)

record struct =
  length' :: nat
  fields' :: "field_name list"
  cache :: "string \<rightharpoonup> jsval"
  cache_proto :: jsval
  members :: "jsval \<Rightarrow> string \<rightharpoonup> jsval"
  read :: "byte list \<Rightarrow> string \<Rightarrow> error + jsval"
  write' :: "byte list \<Rightarrow> string \<Rightarrow> jsval \<Rightarrow> error + byte list"
  buf :: addr
  caching :: jsval
  props :: "field_name list"

text \<open>
  \<^verbatim>\<open>Struct.prototype.setPointer(buf, start)\<close>. The parameter \<^verbatim>\<open>start\<close> occurs
  nowhere in the body.
\<close>

definition setPointer :: "struct \<Rightarrow> heap \<Rightarrow> jsval \<Rightarrow> jsval \<Rightarrow> error + heap \<times> struct" where
  "setPointer this h b start =
     (if \<not> truthy b then
        (case new_Buffer h (length' this) of (h', a) \<Rightarrow> Inr (h', this\<lparr>buf := a\<rparr>))
      else if \<not> isBuffer b then
        Inl (TypeError (format
          ''`Struct#setPointer(buf)` expects a Buffer, but a `%d` was given.''
          [TypeName (typeof b)]))
      else
        (case b of
           JBuffer a \<Rightarrow>
             if length (cells h a) < length' this then
               Inl (RangeError (format
                 (''The given Buffer for `Struct#setPointer(buf)` was too short.'' @
                  ''At least %d bytes were needed, but only %d bytes were given.'')
                 [Num (length' this), Num (length (cells h a))]))
             else Inr (h, this\<lparr>buf := a\<rparr>)
         | _ \<Rightarrow> Inl (TypeError [])))"
  \<comment> \<open>the last case is never taken: only a \<open>JBuffer\<close> passes \<open>isBuffer\<close>\<close>

text \<open>\<^verbatim>\<open>Struct.prototype.getPointer()\<close>.\<close>

definition getPointer :: "struct \<Rightarrow> jsval" where
  "getPointer this = JBuffer (buf this)"

text \<open>
  The three operations on the cache object. Under a name that it does not own,
  the object shows what it inherits: nothing without a prototype; under
  \<^verbatim>\<open>__proto__\<close> the accessor of \<^verbatim>\<open>Object.prototype\<close>, which yields the
  prototype (the objects among the values here all descend from
  \<^verbatim>\<open>Object.prototype\<close>); under another name the member of the prototype.
\<close>

definition inherited :: "struct \<Rightarrow> string \<rightharpoonup> jsval" where
  "inherited this field =
     (if cache_proto this = JNull then None
      else if field = ''__proto__'' then Some (cache_proto this)
      else members this (cache_proto this) field)"

text \<open>\<^verbatim>\<open>this.__.cache[field]\<close>, \<open>None\<close> when the object shows nothing there.\<close>

definition cache_lookup :: "struct \<Rightarrow> string \<rightharpoonup> jsval" where
  "cache_lookup this field =
     (case cache this field of Some v \<Rightarrow> Some v | None \<Rightarrow> inherited this field)"

text \<open>\<^verbatim>\<open>field in this.__.cache\<close>.\<close>

definition in_cache :: "struct \<Rightarrow> string \<Rightarrow> bool" where
  "in_cache this field = (cache_lookup this field \<noteq> None)"

text \<open>
  \<^verbatim>\<open>this.__.cache[field] = val\<close> makes \<open>val\<close> an own property of the cache, but for
  one case: when the name is \<^verbatim>\<open>__proto__\<close>, the cache does not own it and has a
  prototype, the assignment runs the inherited accessor, which makes an object
  or \<^verbatim>\<open>null\<close> the new prototype, ignores any other value, and stores nothing.
  (The other inherited members are taken to be writable data properties, as
  those of \<^verbatim>\<open>Object.prototype\<close> are: an assignment under their name makes an
  own property.)
\<close>

definition proto_setter :: "struct \<Rightarrow> string \<Rightarrow> bool" where
  "proto_setter this field =
     (field = ''__proto__'' \<and> cache this field = None \<and> cache_proto this \<noteq> JNull)"

fun is_prototype :: "jsval \<Rightarrow> bool" where
  "is_prototype JNull = True"
| "is_prototype (JBuffer a) = True"
| "is_prototype JFunction = True"
| "is_prototype JObject = True"
| "is_prototype v = False"

definition cache_assign :: "struct \<Rightarrow> string \<Rightarrow> jsval \<Rightarrow> struct" where
  "cache_assign this field val =
     (if proto_setter this field then
        (if is_prototype val then this\<lparr>cache_proto := val\<rparr> else this)
      else this\<lparr>cache := (cache this)(field \<mapsto> val)\<rparr>)"

text \<open>\<^verbatim>\<open>Struct.prototype.get(field)\<close>.\<close>

definition get :: "struct \<Rightarrow> heap \<Rightarrow> string \<Rightarrow> error + jsval" where
  "get this h field =
     (if truthy (caching this) \<and> in_cache this field then Inr (the (cache_lookup this field))
      else read this (cells h (buf this)) field)"

text \<open>\<^verbatim>\<open>Struct.prototype.set(field, val)\<close>.\<close>

definition set' :: "struct \<Rightarrow> heap \<Rightarrow> string \<Rightarrow> jsval \<Rightarrow> error + heap \<times> struct" where
  "set' this h field val =
     (if truthy (caching this) then Inr (h, cache_assign this field val)
      else
        (case write' this (cells h (buf this)) field val of
           Inl e \<Rightarrow> Inl e
         | Inr bytes \<Rightarrow> Inr (h\<lparr>cells := (cells h)(buf this := bytes)\<rparr>, this)))"

text \<open>\<^verbatim>\<open>Struct.prototype.toBuffer()\<close>: the new heap and the address of the copy.\<close>

definition toBuffer :: "struct \<Rightarrow> heap \<Rightarrow> heap \<times> addr" where
  "toBuffer this h =
     (case new_Buffer h (length' this) of
        (h', a) \<Rightarrow> (h'\<lparr>cells := (cells h')(a := copy (cells h' (buf this)) (cells h' a))\<rparr>, a))"

text \<open>\<^verbatim>\<open>Struct.prototype.toJSON()\<close>.\<close>

definition toJSON :: "struct \<Rightarrow> heap \<Rightarrow> nat list" where
  "toJSON this h = map unat (cells h (buf this))"

text \<open>
  The helper \<^verbatim>\<open>defineProperty(field)\<close>. No accessor hides \<^verbatim>\<open>this.get\<close> or
  \<^verbatim>\<open>this.set\<close> (no field has such a name), so both \<^verbatim>\<open>bind\<close> calls give a
  function. \<^verbatim>\<open>Object.defineProperty\<close> creates a property that is not
  configurable, and throws when asked to define it a second time with other
  accessors (each \<^verbatim>\<open>bind\<close> makes new ones).
\<close>

definition defineProperty :: "struct \<Rightarrow> field_name \<Rightarrow> error + struct" where
  "defineProperty this field =
     (if field \<in> set (props this) then
        Inl (TypeError (''Cannot redefine property: '' @ Rep_field_name field))
      else Inr (this\<lparr>props := props this @ [field]\<rparr>))"

text \<open>\<^verbatim>\<open>this.__.fields.forEach(defineProperty, this)\<close>.\<close>

fun forEach_defineProperty :: "field_name list \<Rightarrow> struct \<Rightarrow> error + struct" where
  "forEach_defineProperty [] this = Inr this"
| "forEach_defineProperty (field # rest) this =
     (case defineProperty this field of
        Inl e \<Rightarrow> Inl e
      | Inr this' \<Rightarrow> forEach_defineProperty rest this')"

text \<open>
  The constructor \<^verbatim>\<open>Struct(buf, caching)\<close>. Its receiver is \<open>Some\<close> object when
  \<^verbatim>\<open>this instanceof Struct\<close> holds (a call with \<^verbatim>\<open>new\<close>, or \<^verbatim>\<open>Struct.apply\<close>
  from a derived constructor) and \<open>None\<close> for a plain call, which then runs
  \<^verbatim>\<open>new Struct(buf)\<close> on \<open>fresh\<close>, the object that \<^verbatim>\<open>new\<close> creates from the
  prototype.
\<close>

definition Struct_body :: "struct \<Rightarrow> heap \<Rightarrow> jsval \<Rightarrow> jsval \<Rightarrow> error + heap \<times> struct" where
  "Struct_body this h b c =
     (case setPointer this h b JUndefined of
        Inl e \<Rightarrow> Inl e
      | Inr (h', this') \<Rightarrow>
          (case forEach_defineProperty (fields' this') (this'\<lparr>caching := c\<rparr>) of
             Inl e \<Rightarrow> Inl e
           | Inr this'' \<Rightarrow> Inr (h', this'')))"

definition Struct :: "struct option \<Rightarrow> struct \<Rightarrow> heap \<Rightarrow> jsval \<Rightarrow> jsval \<Rightarrow> error + heap \<times> struct" where
  "Struct receiver fresh h b c =
     (case receiver of
        None \<Rightarrow> Struct_body fresh h b JUndefined
      | Some this \<Rightarrow> Struct_body this h b c)"

text \<open>\<^verbatim>\<open>new Struct(buf, caching)\<close>.\<close>

definition new_Struct :: "struct \<Rightarrow> heap \<Rightarrow> jsval \<Rightarrow> jsval \<Rightarrow> error + heap \<times> struct" where
  "new_Struct fresh h b c = Struct (Some fresh) fresh h b c"

text \<open>
  The methods that the module assigns to \<^verbatim>\<open>Struct.prototype\<close>, in the order of
  the source. A call \<^verbatim>\<open>view.m()\<close> of a name that is looked up in vain throws a
  \<^verbatim>\<open>TypeError\<close>.
\<close>

datatype member = M_get | M_set | M_getPointer | M_setPointer | M_toBuffer | M_toJSON | M_toString

definition Struct_prototype :: "(string \<times> member) list" where
  "Struct_prototype =
     [(''get'', M_get), (''set'', M_set), (''getPointer'', M_getPointer),
      (''setPointer'', M_setPointer), (''toBuffer'', M_toBuffer), (''toJSON'', M_toJSON),
      (''toString'', M_toString)]"

subsection \<open>The factory\<close>

text \<open>
  \<^verbatim>\<open>createStruct()\<close> returns the constructor \<^verbatim>\<open>_\<close>, which inherits from
  \<^verbatim>\<open>Struct\<close> and runs \<^verbatim>\<open>Struct.apply(this, arguments)\<close>. \<open>underscore\<close> is that
  constructor run by \<^verbatim>\<open>new\<close> on the new object \<open>this\<close>; an argument that the
  caller leaves out is \<^verbatim>\<open>undefined\<close>. \<^verbatim>\<open>createStruct\<close> declares no parameter,
  so whatever a caller passes is ignored.
\<close>

definition arg :: "jsval list \<Rightarrow> nat \<Rightarrow> jsval" where
  "arg arguments i = (if i < length arguments then arguments ! i else JUndefined)"

definition underscore :: "struct \<Rightarrow> heap \<Rightarrow> jsval list \<Rightarrow> error + heap \<times> struct" where
  "underscore this h arguments = Struct (Some this) this h (arg arguments 0) (arg arguments 1)"

definition createStruct :: "'a \<Rightarrow> error + (struct \<Rightarrow> heap \<Rightarrow> jsval list \<Rightarrow> error + heap \<times> struct)" where
  "createStruct ignored = Inr underscore"

subsection \<open>Sequences of accesses\<close>

text \<open>
  A caller's sequence of \<^verbatim>\<open>get\<close> and \<^verbatim>\<open>set\<close> calls. A call that throws leaves
  the state as it was, and the caller goes on.
\<close>

datatype op = Get string | Set string jsval

fun step :: "heap \<times> struct \<Rightarrow> op \<Rightarrow> heap \<times> struct" where
  "step (h, this) (Get field) = (h, this)"
| "step (h, this) (Set field val) =
     (case set' this h field val of Inl e \<Rightarrow> (h, this) | Inr hs \<Rightarrow> hs)"

definition run :: "heap \<times> struct \<Rightarrow> op list \<Rightarrow> heap \<times> struct" where
  "run = foldl step"


section \<open>A layout for the closed instances\<close>

text \<open>
  The instances below use a layout of two fields of one unsigned byte each,
  \<^verbatim>\<open>a\<close> at position 0 and \<^verbatim>\<open>b\<close> at position 1; a cache that is an ordinary
  object, with \<^verbatim>\<open>Object.prototype\<close> (here \<open>JObject\<close>) as its prototype; and a
  runtime that does not clear a new buffer, which then holds the byte 255, and
  allocates up to \<^verbatim>\<open>0x3fffffff\<close> bytes.
\<close>

definition example_a :: field_name where
  "example_a = Abs_field_name ''a''"

definition example_b :: field_name where
  "example_b = Abs_field_name ''b''"

definition Object_prototype :: "string list" where
  "Object_prototype =
     [''constructor'', ''hasOwnProperty'', ''isPrototypeOf'', ''propertyIsEnumerable'',
      ''toLocaleString'', ''toString'', ''valueOf'', ''__defineGetter__'',
      ''__defineSetter__'', ''__lookupGetter__'', ''__lookupSetter__'']"

definition example_members :: "jsval \<Rightarrow> string \<rightharpoonup> jsval" where
  "example_members p name =
     (if p = JObject \<and> name \<in> set Object_prototype then Some JFunction else None)"

definition example_offset :: "string \<Rightarrow> nat option" where
  "example_offset field =
     (if field = ''a'' then Some 0 else if field = ''b'' then Some 1 else None)"

definition example_read :: "byte list \<Rightarrow> string \<Rightarrow> error + jsval" where
  "example_read bytes field =
     (case example_offset field of
        None \<Rightarrow> Inl (TypeError ''no such field'')
      | Some i \<Rightarrow>
          if i < length bytes then Inr (JNum (uint (bytes ! i)))
          else Inl (RangeError ''out of bounds''))"

definition example_write :: "byte list \<Rightarrow> string \<Rightarrow> jsval \<Rightarrow> error + byte list" where
  "example_write bytes field val =
     (case example_offset field of
        None \<Rightarrow> Inl (TypeError ''no such field'')
      | Some i \<Rightarrow>
          (case val of
             JNum n \<Rightarrow>
               if 0 \<le> n \<and> n < 256 \<and> i < length bytes then Inr (bytes[i := word_of_int n])
               else Inl (TypeError ''value out of bounds'')
           | _ \<Rightarrow> Inl (TypeError ''not a number'')))"

definition example_struct :: struct where
  "example_struct =
     \<lparr>length' = 2, fields' = [example_a, example_b], cache = Map.empty,
      cache_proto = JObject, members = example_members, read = example_read,
      write' = example_write, buf = 0, caching = JUndefined, props = []\<rparr>"

definition example_heap :: heap where
  "example_heap =
     \<lparr>cells = (\<lambda>a. []), brk = 0, uninit = (\<lambda>a i. 255), kMaxLength = 1073741823\<rparr>"

text \<open>The same heap after a caller has made a buffer of three bytes at address 0.\<close>

definition example_heap3 :: heap where
  "example_heap3 =
     \<lparr>cells = (\<lambda>a. if a = 0 then [1, 2, 3] else []), brk = 1, uninit = (\<lambda>a i. 255),
      kMaxLength = 1073741823\<rparr>"

section \<open>Properties\<close>

subsection \<open>Error messages\<close>

lemma format_too_short:
  "format (''The given Buffer for `Struct#setPointer(buf)` was too short.'' @
           ''At least %d bytes were needed, but only %d bytes were given.'') [Num n, Num m] =
   ''The given Buffer for `Struct#setPointer(buf)` was too short.At least '' @ decimal n @
   '' bytes were needed, but only '' @ decimal m @ '' bytes were given.''"
  by simp

lemma format_not_a_buffer:
  "format ''`Struct#setPointer(buf)` expects a Buffer, but a `%d` was given.'' [TypeName s] =
   ''`Struct#setPointer(buf)` expects a Buffer, but a `NaN` was given.''"
  by simp

subsection \<open>The three outcomes of \<^verbatim>\<open>setPointer\<close>\<close>

lemma setPointer_falsy:
  "\<not> truthy b \<Longrightarrow> setPointer this h b start =
     Inr (h\<lparr>cells := (cells h)(brk h := map (uninit h (brk h)) [0..<length' this]),
            brk := Suc (brk h)\<rparr>,
          this\<lparr>buf := brk h\<rparr>)"
  by (simp add: setPointer_def new_Buffer_def)

lemma setPointer_not_buffer:
  "truthy b \<Longrightarrow> \<not> isBuffer b \<Longrightarrow> setPointer this h b start =
     Inl (TypeError ''`Struct#setPointer(buf)` expects a Buffer, but a `NaN` was given.'')"
  unfolding setPointer_def by (simp only: format_not_a_buffer if_True if_False simp_thms)

lemma setPointer_buffer:
  "setPointer this h (JBuffer a) start =
     (if length (cells h a) < length' this then
        Inl (RangeError (''The given Buffer for `Struct#setPointer(buf)` was too short.At least '' @
          decimal (length' this) @ '' bytes were needed, but only '' @
          decimal (length (cells h a)) @ '' bytes were given.''))
      else Inr (h, this\<lparr>buf := a\<rparr>))"
  unfolding setPointer_def format_too_short by simp

text \<open>A buffer that passes the checks is bound as it is: no byte is copied or changed.\<close>

lemma setPointer_adopts:
  "length' this \<le> length (cells h a) \<Longrightarrow>
   setPointer this h (JBuffer a) start = Inr (h, this\<lparr>buf := a\<rparr>) \<and>
   getPointer (this\<lparr>buf := a\<rparr>) = JBuffer a"
  by (simp add: setPointer_buffer getPointer_def)

lemma setPointer_ignores_start:
  "setPointer this h b start = setPointer this h b start'"
  by (simp add: setPointer_def)

text \<open>
  After \<^verbatim>\<open>setPointer\<close> the bound buffer is an allocated one and holds at least
  \<^verbatim>\<open>this.length\<close> bytes, provided that a buffer passed in is an allocated one.
\<close>

lemma setPointer_bound:
  assumes "setPointer this h b start = Inr (h', this')"
    and "\<And>a. b = JBuffer a \<Longrightarrow> a < brk h"
  shows "buf this' < brk h' \<and> length' this' \<le> length (cells h' (buf this'))"
proof (cases "truthy b")
  case False
  with assms(1) show ?thesis by (auto simp: setPointer_falsy)
next
  case True
  show ?thesis
  proof (cases "isBuffer b")
    case False
    with True assms(1) show ?thesis by (simp add: setPointer_not_buffer)
  next
    case True
    then obtain a where b: "b = JBuffer a" by (cases b) auto
    with assms show ?thesis by (auto simp: setPointer_buffer split: if_splits)
  qed
qed

subsection \<open>Names of fields\<close>

lemma Rep_Abs_field_name:
  "s \<notin> set reserved \<Longrightarrow> Rep_field_name (Abs_field_name s) = s"
  by (simp add: Abs_field_name_inverse)

lemma example_names_distinct: "example_a \<noteq> example_b" "example_b \<noteq> example_a"
  by (simp_all add: example_a_def example_b_def Abs_field_name_inject reserved_def)

subsection \<open>The cache\<close>

lemma get_uncached:
  "\<not> truthy (caching this) \<Longrightarrow> get this h field = read this (cells h (buf this)) field"
  by (simp add: get_def)


lemma set'_cached:
  "truthy (caching this) \<Longrightarrow> set' this h field val = Inr (h, cache_assign this field val)"
  by (simp add: set'_def)

lemma cache_assign_frame:
  "caching (cache_assign this field val) = caching this"
  "buf (cache_assign this field val) = buf this"
  "length' (cache_assign this field val) = length' this"
  by (simp_all add: cache_assign_def)



text \<open>
  On an ordinary object the name \<^verbatim>\<open>__proto__\<close> is the one that the cache does
  not store: a string assigned to it is dropped, and \<^verbatim>\<open>get\<close> returns the
  prototype.
\<close>

lemma cached_proto_dropped:
  "set' (example_struct\<lparr>caching := JBool True\<rparr>) example_heap3 ''__proto__'' (JStr ''x'') =
     Inr (example_heap3, example_struct\<lparr>caching := JBool True\<rparr>) \<and>
   get (example_struct\<lparr>caching := JBool True\<rparr>) example_heap3 ''__proto__'' = Inr JObject"
  by (simp add: set'_def get_def cache_assign_def proto_setter_def in_cache_def
        cache_lookup_def inherited_def example_struct_def)

subsection \<open>The constructor\<close>


lemma forEach_defineProperty_result:
  "forEach_defineProperty fs this = Inr this' \<Longrightarrow> this' = this\<lparr>props := props this @ fs\<rparr>"
proof (induction fs arbitrary: this)
  case Nil
  then show ?case by simp
next
  case (Cons f fs)
  from Cons.prems
  have rest: "forEach_defineProperty fs (this\<lparr>props := props this @ [f]\<rparr>) = Inr this'"
    by (auto simp: defineProperty_def split: if_splits)
  from Cons.IH [OF rest] show ?case by simp
qed

lemma Struct_body_caching:
  "Struct_body this h b c = Inr (h', this') \<Longrightarrow> caching this' = c"
  by (auto simp: Struct_body_def split: sum.splits dest!: forEach_defineProperty_result)

lemma new_Struct_example:
  "new_Struct example_struct example_heap3 (JBuffer 0) (JBool True) =
     Inr (example_heap3,
          example_struct\<lparr>buf := 0, caching := JBool True, props := [example_a, example_b]\<rparr>)"
  by (simp add: new_Struct_def Struct_def Struct_body_def setPointer_buffer example_struct_def
        example_heap3_def defineProperty_def example_names_distinct)

subsection \<open>Accesses without caching\<close>

lemma step_uncached:
  "\<not> truthy (caching this) \<Longrightarrow> snd (step (h, this) x) = this"
  by (cases x) (auto simp: set'_def split: sum.splits)

lemma run_uncached:
  "\<not> truthy (caching this) \<Longrightarrow> snd (run (h, this) ops) = this"
proof (induction ops arbitrary: h)
  case Nil
  then show ?case by (simp add: run_def)
next
  case (Cons x ops)
  obtain h1 where s: "step (h, this) x = (h1, this)"
    using step_uncached [OF Cons.prems, of h x] by (cases "step (h, this) x") simp
  have "run (h, this) (x # ops) = run (h1, this) ops"
    by (simp add: run_def s)
  with Cons.IH [OF Cons.prems, of h1] show ?case by simp
qed

text \<open>With caching, no sequence of accesses changes the heap: nothing reaches a buffer.\<close>

lemma step_cached:
  "truthy (caching this) \<Longrightarrow>
   fst (step (h, this) x) = h \<and> truthy (caching (snd (step (h, this) x)))"
  by (cases x) (auto simp: set'_cached cache_assign_frame)

lemma run_cached:
  "truthy (caching this) \<Longrightarrow> fst (run (h, this) ops) = h"
proof (induction ops arbitrary: this)
  case Nil
  then show ?case by (simp add: run_def)
next
  case (Cons x ops)
  obtain this1 where s: "step (h, this) x = (h, this1)" and c: "truthy (caching this1)"
    using step_cached [OF Cons.prems, of h x] by (cases "step (h, this) x") simp
  have "run (h, this) (x # ops) = run (h, this1) ops"
    by (simp add: run_def s)
  with Cons.IH [OF c] show ?case by simp
qed



section \<open>The claims\<close>

text \<open>
  C1. With caching on, the view should offer \<^verbatim>\<open>serialize()\<close>, which writes every
  cached value into the live buffer through the codec, in the order of the
  fields, and then clears the cache. The prototype has no such method: on a
  caching view the value 7 set for \<^verbatim>\<open>a\<close> stays in the cache, the buffer keeps its
  bytes, and the name \<^verbatim>\<open>serialize\<close> is looked up in vain.
\<close>

theorem serialize_not_defined:
  "map_of Struct_prototype ''serialize'' = None \<and>
   fst (run (example_heap3, example_struct\<lparr>caching := JBool True\<rparr>) [Set ''a'' (JNum 7)]) =
     example_heap3 \<and>
   cache (snd (run (example_heap3, example_struct\<lparr>caching := JBool True\<rparr>) [Set ''a'' (JNum 7)]))
     ''a'' = Some (JNum 7)"
  by (simp add: Struct_prototype_def run_def set'_def cache_assign_def proto_setter_def
        example_struct_def)






text \<open>
  C4. A byte offset \<^verbatim>\<open>start\<close> passed with the buffer should place the view at
  that offset, and the length check should count the bytes from there. The body
  of \<^verbatim>\<open>setPointer\<close> never reads \<^verbatim>\<open>start\<close>: a layout of 2 bytes is bound to a
  buffer of 3 bytes with \<^verbatim>\<open>start = 2\<close>, where one byte is left, and field
  \<^verbatim>\<open>a\<close> then reads the byte at position 0, not the one at position 2.
\<close>

theorem setPointer_start_unused:
  "setPointer example_struct example_heap3 (JBuffer 0) (JNum 2) =
     Inr (example_heap3, example_struct\<lparr>buf := 0\<rparr>) \<and>
   length (cells example_heap3 0) = 3 \<and> length' example_struct = 2 \<and>
   get (example_struct\<lparr>buf := 0\<rparr>) example_heap3 ''a'' = Inr (JNum 1)"
  by (simp add: setPointer_buffer get_uncached example_struct_def example_heap3_def
        example_read_def example_offset_def)

text \<open>
  C5. A buffer shorter than \<^verbatim>\<open>this.length\<close> makes \<^verbatim>\<open>setPointer\<close>, and
  construction with it, throw a \<^verbatim>\<open>RangeError\<close> whose message gives the length
  needed and the length of the buffer, both in decimal.
\<close>

theorem short_buffer_RangeError:
  "length (cells h a) < length' this \<Longrightarrow>
   setPointer this h (JBuffer a) start =
     Inl (RangeError (''The given Buffer for `Struct#setPointer(buf)` was too short.At least '' @
       decimal (length' this) @ '' bytes were needed, but only '' @
       decimal (length (cells h a)) @ '' bytes were given.'')) \<and>
   new_Struct this h (JBuffer a) c =
     Inl (RangeError (''The given Buffer for `Struct#setPointer(buf)` was too short.At least '' @
       decimal (length' this) @ '' bytes were needed, but only '' @
       decimal (length (cells h a)) @ '' bytes were given.''))"
  by (simp add: setPointer_buffer new_Struct_def Struct_def Struct_body_def)

theorem short_buffer_RangeError_witness:
  "length (cells example_heap3 0) < length' (example_struct\<lparr>length' := 12\<rparr>) \<and>
   setPointer (example_struct\<lparr>length' := 12\<rparr>) example_heap3 (JBuffer 0) JUndefined =
     Inl (RangeError (''The given Buffer for `Struct#setPointer(buf)` was too short.'' @
                      ''At least 12 bytes were needed, but only 3 bytes were given.'')) \<and>
   new_Struct (example_struct\<lparr>length' := 12\<rparr>) example_heap3 (JBuffer 0) (JBool True) =
     Inl (RangeError (''The given Buffer for `Struct#setPointer(buf)` was too short.'' @
                      ''At least 12 bytes were needed, but only 3 bytes were given.''))"
  using short_buffer_RangeError
    [of example_heap3 0 "example_struct\<lparr>length' := 12\<rparr>" JUndefined "JBool True"]
  by (simp add: example_heap3_def example_struct_def decimal.simps)

text \<open>
  C6. An argument that is truthy and not a buffer makes \<^verbatim>\<open>setPointer\<close>, and
  construction with it, throw a \<^verbatim>\<open>TypeError\<close>.
\<close>

theorem not_a_buffer_TypeError:
  "truthy b \<Longrightarrow> \<not> isBuffer b \<Longrightarrow>
   setPointer this h b start =
     Inl (TypeError ''`Struct#setPointer(buf)` expects a Buffer, but a `NaN` was given.'') \<and>
   new_Struct this h b c =
     Inl (TypeError ''`Struct#setPointer(buf)` expects a Buffer, but a `NaN` was given.'')"
  by (simp only: setPointer_not_buffer new_Struct_def Struct_def Struct_body_def
        option.case sum.case simp_thms)

theorem not_a_buffer_TypeError_witness:
  "truthy (JStr ''abc'') \<and> \<not> isBuffer (JStr ''abc'') \<and>
   setPointer example_struct example_heap (JStr ''abc'') JUndefined =
     Inl (TypeError ''`Struct#setPointer(buf)` expects a Buffer, but a `NaN` was given.'') \<and>
   new_Struct example_struct example_heap (JStr ''abc'') JUndefined =
     Inl (TypeError ''`Struct#setPointer(buf)` expects a Buffer, but a `NaN` was given.'')"
  using not_a_buffer_TypeError
    [of "JStr ''abc''" example_struct example_heap JUndefined JUndefined]
  by simp

text \<open>
  C7. On a view bound to an allocated buffer of at least \<^verbatim>\<open>this.length\<close> bytes
  (what \<^verbatim>\<open>setPointer\<close> establishes), \<^verbatim>\<open>toBuffer()\<close> returns a buffer other than
  the bound one, of exactly \<^verbatim>\<open>this.length\<close> bytes, equal to the first bytes of
  the bound buffer (the view is bound at position 0); the bound buffer keeps its
  bytes, and whatever is written into the copy afterwards, every \<^verbatim>\<open>get\<close> returns
  what it returned before.
\<close>

theorem toBuffer_defensive_copy:
  "buf this < brk h \<Longrightarrow> length' this \<le> length (cells h (buf this)) \<Longrightarrow>
   \<exists>h' a. toBuffer this h = (h', a) \<and> a \<noteq> buf this \<and>
     cells h' a = take (length' this) (cells h (buf this)) \<and>
     length (cells h' a) = length' this \<and>
     cells h' (buf this) = cells h (buf this) \<and>
     (\<forall>bytes field. get this (h'\<lparr>cells := (cells h')(a := bytes)\<rparr>) field = get this h field)"
  by (auto simp: toBuffer_def new_Buffer_def copy_def get_def)

theorem toBuffer_defensive_copy_witness:
  "buf example_struct < brk example_heap3 \<and>
   length' example_struct \<le> length (cells example_heap3 (buf example_struct)) \<and>
   snd (toBuffer example_struct example_heap3) = 1 \<and>
   cells (fst (toBuffer example_struct example_heap3)) 1 = [1, 2] \<and>
   get example_struct
     ((fst (toBuffer example_struct example_heap3))
        \<lparr>cells := (cells (fst (toBuffer example_struct example_heap3)))(1 := [9, 9])\<rparr>) ''b'' =
   Inr (JNum 2)"
  using toBuffer_defensive_copy [of example_struct example_heap3]
  by (auto simp: toBuffer_def new_Buffer_def copy_def get_def example_struct_def
        example_heap3_def example_read_def example_offset_def)

text \<open>
  C8, as stated: the factory fails when a field name repeats or a codec lacks
  \<^verbatim>\<open>read\<close> or \<^verbatim>\<open>write\<close>. It returns a constructor for a list that names
  \<^verbatim>\<open>a\<close> twice, and for a field whose codec has neither operation (each entry
  is a name, whether the codec has \<^verbatim>\<open>read\<close>, and whether it has \<^verbatim>\<open>write\<close>).
\<close>

theorem createStruct_no_validation_counterexample:
  "\<not> isl (createStruct [(''a'', True, True), (''a'', True, True)]) \<and>
   \<not> isl (createStruct [(''a'', False, False)])"
  by (simp add: createStruct_def)

text \<open>
  C8, amended: the factory takes no field list, checks nothing and never fails;
  it returns a constructor that hands its receiver and its arguments to
  \<^verbatim>\<open>Struct\<close>.
\<close>

theorem createStruct_never_fails:
  "createStruct input = Inr underscore \<and>
   underscore this h [b, c] = new_Struct this h b c"
  by (simp add: createStruct_def underscore_def arg_def new_Struct_def)

text \<open>
  C9. On a view whose caching flag is falsy and whose cache is empty, after any
  sequence of \<^verbatim>\<open>get\<close> and \<^verbatim>\<open>set\<close> calls the cache is still empty and the flag
  unchanged, every \<^verbatim>\<open>set\<close> is the codec's \<^verbatim>\<open>write\<close> on the bytes of the bound
  buffer, stored back into that buffer, and every \<^verbatim>\<open>get\<close> is the codec's
  \<^verbatim>\<open>read\<close> of these bytes.
\<close>

theorem uncached_access_is_direct:
  "\<not> truthy (caching this) \<Longrightarrow> cache this = Map.empty \<Longrightarrow>
   (case run (h, this) ops of
      (h', this') \<Rightarrow>
        cache this' = Map.empty \<and> caching this' = caching this \<and>
        (\<forall>field val.
           set' this' h' field val =
             (case write' this' (cells h' (buf this')) field val of
                Inl e \<Rightarrow> Inl e
              | Inr bytes \<Rightarrow> Inr (h'\<lparr>cells := (cells h')(buf this' := bytes)\<rparr>, this')) \<and>
           get this' h' field = read this' (cells h' (buf this')) field))"
proof -
  assume off: "\<not> truthy (caching this)" and empty: "cache this = Map.empty"
  obtain h' this' where r: "run (h, this) ops = (h', this')"
    by (cases "run (h, this) ops")
  with run_uncached [OF off, of h ops] have same: "this' = this" by simp
  show ?thesis
    unfolding r same using off empty by (simp add: set'_def get_def)
qed

theorem uncached_access_is_direct_witness:
  "\<not> truthy (caching example_struct) \<and> cache example_struct = Map.empty \<and>
   run (example_heap3, example_struct) [Set ''a'' (JNum 7), Get ''a'', Set ''b'' (JStr ''x'')] =
     (example_heap3\<lparr>cells := (cells example_heap3)(0 := [7, 2, 3])\<rparr>, example_struct) \<and>
   get example_struct (example_heap3\<lparr>cells := (cells example_heap3)(0 := [7, 2, 3])\<rparr>) ''a'' =
     Inr (JNum 7)"
  using uncached_access_is_direct [of example_struct example_heap3
      "[Set ''a'' (JNum 7), Get ''a'', Set ''b'' (JStr ''x'')]"]
  by (simp add: run_def set'_def get_def example_struct_def example_heap3_def
        example_write_def example_read_def example_offset_def)

text \<open>
  C10. \<^verbatim>\<open>Struct(buf, caching)\<close> called without \<^verbatim>\<open>new\<close> is
  \<^verbatim>\<open>new Struct(buf)\<close>: whatever flag is passed, a view that it returns has the
  caching flag \<^verbatim>\<open>undefined\<close>.
\<close>

theorem Struct_without_new_drops_caching:
  "Struct None fresh h b c = new_Struct fresh h b JUndefined \<and>
   (case Struct None fresh h b c of
      Inl e \<Rightarrow> True
    | Inr (h', this') \<Rightarrow> caching this' = JUndefined)"
  by (auto simp: Struct_def new_Struct_def split: sum.splits dest: Struct_body_caching)

theorem Struct_without_new_drops_caching_witness:
  "new_Struct example_struct example_heap3 (JBuffer 0) (JBool True) =
     Inr (example_heap3,
          example_struct\<lparr>buf := 0, caching := JBool True, props := [example_a, example_b]\<rparr>) \<and>
   Struct None example_struct example_heap3 (JBuffer 0) (JBool True) =
     Inr (example_heap3,
          example_struct\<lparr>buf := 0, caching := JUndefined, props := [example_a, example_b]\<rparr>)"
  using Struct_without_new_drops_caching [of example_struct example_heap3 "JBuffer 0" "JBool True"]
    new_Struct_example
  by (simp add: new_Struct_def Struct_def Struct_body_def setPointer_buffer example_struct_def
        example_heap3_def defineProperty_def example_names_distinct)

end
